theory Spec2Isabelle
  imports Complex_Main "HOL-Library.Sublist"
begin

section \<open>StudBud: the study planner of app.py\<close>

text \<open>
  The planner is one Python class, \<^verbatim>\<open>StudBud\<close>, whose methods read and update the
  attributes of the object, print to the console, draw from the global random generator,
  call a text classifier and read files. The embedding makes each of these explicit:
  the attributes are a record, everything outside the object (console, random source,
  clock, files) is a second record, and every method returns the error it raises or its
  result, together with the state it leaves behind.

  Numbers: \<^verbatim>\<open>study_duration\<close> is a Python \<^verbatim>\<open>int\<close>; the time of a block and the score of
  the classifier are Python floats. A float is read here as the real number it stands
  for, and the quotient of two integers as the exact quotient, of which the program holds
  the nearest double; the division raises where Python's does.

  Errors are the exceptions of class \<^verbatim>\<open>Exception\<close>. What is not an error in Python's
  hierarchy (\<^verbatim>\<open>KeyboardInterrupt\<close>, \<^verbatim>\<open>SystemExit\<close>, \<^verbatim>\<open>GeneratorExit\<close>) is outside the model.
\<close>

subsection \<open>Errors\<close>

datatype py_error =
    KeyError
  | IndexError
  | ZeroDivisionError
  | OverflowError
  | JSONDecodeError
  | OSError

subsection \<open>True division of integers\<close>

text \<open>
  \<^verbatim>\<open>a / b\<close> on two Python integers gives the double nearest to the quotient. It raises
  \<^verbatim>\<open>ZeroDivisionError\<close> when \<open>b\<close> is zero and \<^verbatim>\<open>OverflowError\<close> (integer division result
  too large for a float) when the rounded quotient would leave the range of the doubles:
  the largest double is \<open>2 ^ 1024 - 2 ^ 971\<close>, and a quotient from \<open>2 ^ 1024 - 2 ^ 970\<close>
  on, halfway to \<open>2 ^ 1024\<close>, rounds beyond it.
\<close>

definition float_limit :: real where
  "float_limit = 2 ^ 1024 - 2 ^ 970"

definition true_divide :: "int \<Rightarrow> nat \<Rightarrow> py_error + real" where
  "true_divide a b =
     (if b = 0 then Inl ZeroDivisionError
      else if float_limit \<le> \<bar>real_of_int a / real b\<bar> then Inl OverflowError
      else Inr (real_of_int a / real b))"

subsection \<open>Calendar dates (datetime.date)\<close>

text \<open>
  A \<^verbatim>\<open>datetime.date\<close> holds a year, a month and a day of the proleptic Gregorian
  calendar, between 0001-01-01 and 9999-12-31. Adding \<^verbatim>\<open>timedelta(days=1)\<close> gives the
  next calendar day and raises \<^verbatim>\<open>OverflowError\<close> past the last one.
\<close>

record pydate =
  year :: nat
  month :: nat
  day :: nat

definition is_leap :: "nat \<Rightarrow> bool" where
  "is_leap y = (y mod 4 = 0 \<and> (y mod 100 \<noteq> 0 \<or> y mod 400 = 0))"

definition days_in_month :: "nat \<Rightarrow> nat \<Rightarrow> nat" where
  "days_in_month y m =
     (if m = 2 then (if is_leap y then 29 else 28)
      else if m = 4 \<or> m = 6 \<or> m = 9 \<or> m = 11 then 30
      else 31)"

definition valid_date :: "pydate \<Rightarrow> bool" where
  "valid_date d =
     (1 \<le> year d \<and> year d \<le> 9999 \<and> 1 \<le> month d \<and> month d \<le> 12 \<and>
      1 \<le> day d \<and> day d \<le> days_in_month (year d) (month d))"

text \<open>\<^verbatim>\<open>current_date + datetime.timedelta(days=1)\<close>\<close>

definition add_one_day :: "pydate \<Rightarrow> py_error + pydate" where
  "add_one_day d =
     (if day d < days_in_month (year d) (month d) then Inr (d\<lparr>day := day d + 1\<rparr>)
      else if month d < 12 then Inr (d\<lparr>month := month d + 1, day := 1\<rparr>)
      else if year d < 9999 then Inr (d\<lparr>year := year d + 1, month := 1, day := 1\<rparr>)
      else Inl OverflowError)"

text \<open>
  \<^verbatim>\<open>date.strftime("%Y-%m-%d")\<close>, as the Python documentation gives it: the year in
  four digits, the month and the day in two, each zero padded.
\<close>

definition digit :: "nat \<Rightarrow> char" where
  "digit n = ''0123456789'' ! (n mod 10)"

definition pad2 :: "nat \<Rightarrow> string" where
  "pad2 n = [digit (n div 10), digit n]"

definition pad4 :: "nat \<Rightarrow> string" where
  "pad4 n = [digit (n div 1000), digit (n div 100), digit (n div 10), digit n]"

definition strftime :: "pydate \<Rightarrow> string" where
  "strftime d = pad4 (year d) @ ''-'' @ pad2 (month d) @ ''-'' @ pad2 (day d)"

subsection \<open>The object and its surroundings\<close>

record preferences =
  study_time :: string
  study_duration :: int
  study_environment :: string
  study_methods :: "string list"

record study_block =
  subject :: string
  time :: real
  task :: string
  priority :: string

record daily_plan =
  date :: string
  study_blocks :: "study_block list"
  environment :: string
  preferred_time :: string

text \<open>
  The classifier \<^verbatim>\<open>self.nlp_model\<close> is a capability of the object: called on a text, it
  raises (\<open>Inl\<close>, with the text of the exception) or returns a label and a score.
\<close>

record StudBud =
  student_name :: string
  study_plan :: "string \<rightharpoonup> daily_plan"
  nlp_model :: "string \<Rightarrow> string + (string \<times> real)"
  subjects :: "string list"
  weaknesses :: "string \<rightharpoonup> string"
  areas_to_focus :: "string \<rightharpoonup> string"
  study_preferences :: preferences

text \<open>
  What lies outside the object: the lines printed so far, the random generator (the draws
  still to come, the next one at index 0), today's date and the files on disk: the
  content of each file that exists, the names that cannot be opened for writing and the
  files that exist but cannot be opened for reading.
\<close>

record world =
  stdout :: "string list"
  rand :: "nat \<Rightarrow> nat"
  today :: pydate
  files :: "string \<rightharpoonup> string"
  write_denied :: "string set"
  read_denied :: "string set"

definition print :: "string \<Rightarrow> world \<Rightarrow> world" where
  "print line w = w\<lparr>stdout := stdout w @ [line]\<rparr>"

text \<open>\<^verbatim>\<open>random.choice(seq)\<close>: \<^verbatim>\<open>IndexError\<close> on an empty sequence, else one draw.\<close>

definition random_choice :: "'a list \<Rightarrow> world \<Rightarrow> (py_error + 'a) \<times> world" where
  "random_choice xs w =
     (if xs = [] then (Inl IndexError, w)
      else (Inr (xs ! (rand w 0 mod length xs)), w\<lparr>rand := (\<lambda>k. rand w (Suc k))\<rparr>))"

subsection \<open>prioritize_task\<close>

definition prioritize_task ::
  "StudBud \<Rightarrow> string \<Rightarrow> string \<Rightarrow> world \<Rightarrow> (py_error + string) \<times> world" where
  "prioritize_task self subj task_description w =
     (case nlp_model self task_description of
        Inl e \<Rightarrow>
          (Inr ''Medium'',
           print (''Error performing sentiment analysis: '' @ e @
                  ''.  Defaulting to medium priority.'') w)
      | Inr (sentiment, score) \<Rightarrow>
          if sentiment = ''NEGATIVE'' \<and> score > 0.7 then (Inr ''High'', w)
          else (case weaknesses self subj of
                  None \<Rightarrow> (Inl KeyError, w)
                | Some weakness \<Rightarrow>
                    if sublist weakness task_description then (Inr ''Medium'', w)
                    else (Inr ''Low'', w)))"

subsection \<open>analyze_student_data\<close>

text \<open>The loop \<^verbatim>\<open>for subject in self.subjects\<close> that fills \<^verbatim>\<open>self.areas_to_focus\<close>.\<close>

fun focus_loop :: "StudBud \<Rightarrow> string list \<Rightarrow> (py_error + unit) \<times> StudBud" where
  "focus_loop self [] = (Inr (), self)"
| "focus_loop self (s # ss) =
     (case weaknesses self s of
        None \<Rightarrow> (Inl KeyError, self)
      | Some weakness \<Rightarrow>
          focus_loop (self\<lparr>areas_to_focus := (areas_to_focus self)(s \<mapsto> weakness)\<rparr>) ss)"

definition analyze_student_data ::
  "StudBud \<Rightarrow> world \<Rightarrow> (py_error + unit) \<times> StudBud \<times> world" where
  "analyze_student_data self w =
     (let w' = print (CHR 0x0A # ''Analyzing your information...'' @ [CHR 0x0A]) w;
          self' = self\<lparr>areas_to_focus := Map.empty\<rparr>
      in case focus_loop self' (subjects self') of
           (r, self'') \<Rightarrow> (r, self'', w'))"

subsection \<open>generate_daily_plan\<close>

text \<open>
  The loop \<^verbatim>\<open>for subject in self.subjects\<close> that appends one block per subject. The
  f-string looks the focus area up first, then draws the method; the block's priority is
  computed last.
\<close>

fun study_blocks_loop ::
  "StudBud \<Rightarrow> real \<Rightarrow> string list \<Rightarrow> world \<Rightarrow> (py_error + study_block list) \<times> world" where
  "study_blocks_loop self time_per_subject [] w = (Inr [], w)"
| "study_blocks_loop self time_per_subject (s # ss) w =
     (case areas_to_focus self s of
        None \<Rightarrow> (Inl KeyError, w)
      | Some focus \<Rightarrow>
          (case random_choice (study_methods (study_preferences self)) w of
             (Inl e, w1) \<Rightarrow> (Inl e, w1)
           | (Inr method, w1) \<Rightarrow>
               (let task_description = ''Review '' @ focus @ '' using '' @ method
                in case prioritize_task self s task_description w1 of
                     (Inl e, w2) \<Rightarrow> (Inl e, w2)
                   | (Inr p, w2) \<Rightarrow>
                       (case study_blocks_loop self time_per_subject ss w2 of
                          (Inl e, w3) \<Rightarrow> (Inl e, w3)
                        | (Inr blocks, w3) \<Rightarrow>
                            (Inr (\<lparr>subject = s, time = time_per_subject,
                                   task = task_description, priority = p\<rparr> # blocks),
                             w3)))))"

definition generate_daily_plan ::
  "StudBud \<Rightarrow> pydate \<Rightarrow> world \<Rightarrow> (py_error + daily_plan) \<times> world" where
  "generate_daily_plan self d w =
     (let available_time = study_duration (study_preferences self)
      in case true_divide available_time (length (subjects self)) of
           Inl e \<Rightarrow> (Inl e, w)
         | Inr ratio \<Rightarrow>
             (let time_per_subject = max 0.5 ratio
              in case study_blocks_loop self time_per_subject (subjects self) w of
                   (Inl e, w') \<Rightarrow> (Inl e, w')
                 | (Inr blocks, w') \<Rightarrow>
                     (Inr \<lparr>date = strftime d,
                           study_blocks = blocks,
                           environment = study_environment (study_preferences self),
                           preferred_time = study_time (study_preferences self)\<rparr>,
                      w')))"

subsection \<open>generate_study_plan\<close>

text \<open>
  The loop \<^verbatim>\<open>for day in range(num_days)\<close>: store the day's plan under the date's string,
  then step to the next date.
\<close>

fun plan_days ::
  "StudBud \<Rightarrow> pydate \<Rightarrow> nat \<Rightarrow> world \<Rightarrow> (py_error + unit) \<times> StudBud \<times> world" where
  "plan_days self current_date 0 w = (Inr (), self, w)"
| "plan_days self current_date (Suc n) w =
     (case generate_daily_plan self current_date w of
        (Inl e, w') \<Rightarrow> (Inl e, self, w')
      | (Inr dp, w') \<Rightarrow>
          (let self' = self\<lparr>study_plan := (study_plan self)(strftime current_date \<mapsto> dp)\<rparr>
           in case add_one_day current_date of
                Inl e \<Rightarrow> (Inl e, self', w')
              | Inr next_date \<Rightarrow> plan_days self' next_date n w'))"

definition generate_study_plan ::
  "StudBud \<Rightarrow> pydate option \<Rightarrow> int \<Rightarrow> world \<Rightarrow> (py_error + unit) \<times> StudBud \<times> world" where
  "generate_study_plan self start_date num_days w =
     (if subjects self = [] then
        (Inr (), self, print ''No subjects defined. Please gather student info first.'' w)
      else
        (let start = (case start_date of None \<Rightarrow> today w | Some d \<Rightarrow> d)
         in plan_days self start (nat num_days) w))"

subsection \<open>save_study_plan and load_study_plan\<close>


definition load_study_plan ::
  "(string \<Rightarrow> py_error + (string \<rightharpoonup> daily_plan)) \<Rightarrow>
   StudBud \<Rightarrow> string \<Rightarrow> world \<Rightarrow> (py_error + unit) \<times> StudBud \<times> world" where
  "load_study_plan json_load self filename w =
     (case files w filename of
        None \<Rightarrow> (Inr (), self, print (''File not found: '' @ filename) w)
      | Some content \<Rightarrow>
          if filename \<in> read_denied w then (Inl OSError, self, w)
          else
            (case json_load content of
               Inl e \<Rightarrow> (Inl e, self, w)
             | Inr plan \<Rightarrow>
                 (Inr (), self\<lparr>study_plan := plan\<rparr>,
                  print (''Study plan loaded from '' @ filename) w)))"

subsection \<open>Profiles, date ranges and a running example\<close>

text \<open>
  The invariants of a collected profile: at least one study method, and a recorded
  weakness and a focus area for every subject.
\<close>

definition well_formed :: "StudBud \<Rightarrow> bool" where
  "well_formed self =
     (study_methods (study_preferences self) \<noteq> [] \<and>
      (\<forall>s \<in> set (subjects self).
         weaknesses self s \<noteq> None \<and> areas_to_focus self s \<noteq> None))"

text \<open>The daily duration divided by the number of subjects is within the doubles.\<close>

definition time_fits :: "StudBud \<Rightarrow> bool" where
  "time_fits self =
     (\<bar>real_of_int (study_duration (study_preferences self)) /
       real (length (subjects self))\<bar> < float_limit)"

text \<open>The dates \<open>d\<close>, \<open>d + 1 day\<close>, ... : \<open>n\<close> of them, or fewer when the calendar ends.\<close>

fun days_from :: "pydate \<Rightarrow> nat \<Rightarrow> pydate list" where
  "days_from d 0 = []"
| "days_from d (Suc n) =
     d # (case add_one_day d of Inl e \<Rightarrow> [] | Inr d' \<Rightarrow> days_from d' n)"

text \<open>\<open>d + n days\<close> is still a date.\<close>

fun in_range :: "pydate \<Rightarrow> nat \<Rightarrow> bool" where
  "in_range d 0 = True"
| "in_range d (Suc n) =
     (case add_one_day d of Inl e \<Rightarrow> False | Inr d' \<Rightarrow> in_range d' n)"

text \<open>
  The profile of the running example: two subjects, one hour a day, one study method.
  The classifier is left open.
\<close>

definition alice :: "(string \<Rightarrow> string + (string \<times> real)) \<Rightarrow> StudBud" where
  "alice classifier =
     \<lparr>student_name = ''Alice'',
      study_plan = Map.empty,
      nlp_model = classifier,
      subjects = [''Math'', ''History''],
      weaknesses = [''Math'' \<mapsto> ''Calculus'', ''History'' \<mapsto> ''Essays''],
      areas_to_focus = [''Math'' \<mapsto> ''Calculus'', ''History'' \<mapsto> ''Essays''],
      study_preferences =
        \<lparr>study_time = ''Morning'', study_duration = 1,
         study_environment = ''Library'', study_methods = [''Flashcards'']\<rparr>\<rparr>"

text \<open>The same profile with a third subject: three subjects share one hour.\<close>

definition carol :: "(string \<Rightarrow> string + (string \<times> real)) \<Rightarrow> StudBud" where
  "carol classifier =
     (alice classifier)
       \<lparr>subjects := [''Math'', ''History'', ''Art''],
        weaknesses := [''Math'' \<mapsto> ''Calculus'', ''History'' \<mapsto> ''Essays'',
                       ''Art'' \<mapsto> ''Perspective''],
        areas_to_focus := [''Math'' \<mapsto> ''Calculus'', ''History'' \<mapsto> ''Essays'',
                           ''Art'' \<mapsto> ''Perspective'']\<rparr>"

definition block :: "string \<Rightarrow> real \<Rightarrow> string \<Rightarrow> string \<Rightarrow> study_block" where
  "block s t d p = \<lparr>subject = s, time = t, task = d, priority = p\<rparr>"

text \<open>The day that \<open>alice\<close> gets when every block has the priority \<open>p\<close>.\<close>

definition alice_day :: "string \<Rightarrow> string \<Rightarrow> daily_plan" where
  "alice_day key p =
     \<lparr>date = key,
      study_blocks = [block ''Math'' 0.5 ''Review Calculus using Flashcards'' p,
                      block ''History'' 0.5 ''Review Essays using Flashcards'' p],
      environment = ''Library'', preferred_time = ''Morning''\<rparr>"

definition carol_day :: "string \<Rightarrow> string \<Rightarrow> daily_plan" where
  "carol_day key p =
     \<lparr>date = key,
      study_blocks = [block ''Math'' 0.5 ''Review Calculus using Flashcards'' p,
                      block ''History'' 0.5 ''Review Essays using Flashcards'' p,
                      block ''Art'' 0.5 ''Review Perspective using Flashcards'' p],
      environment = ''Library'', preferred_time = ''Morning''\<rparr>"

text \<open>A classifier that always raises, a profile without subjects, a parser that fails.\<close>

definition no_classifier :: "string \<Rightarrow> string + (string \<times> real)" where
  "no_classifier t = Inl ''model unavailable''"

definition nobody :: StudBud where
  "nobody = (alice no_classifier)\<lparr>subjects := []\<rparr>"

definition no_json :: "string \<Rightarrow> py_error + (string \<rightharpoonup> daily_plan)" where
  "no_json content = Inl JSONDecodeError"



text \<open>A classifier that is never strongly negative, and a student with an older plan.\<close>

definition calm_classifier :: "string \<Rightarrow> string + (string \<times> real)" where
  "calm_classifier t = Inr (''POSITIVE'', 0.9)"

definition returning :: StudBud where
  "returning =
     (alice calm_classifier)
       \<lparr>study_plan := [''2023-12-31'' \<mapsto> alice_day ''2023-12-31'' ''Low'']\<rparr>"

text \<open>A student who asks for \<open>2 ^ 1025\<close> hours a day.\<close>

definition tireless :: StudBud where
  "tireless =
     (alice calm_classifier)
       \<lparr>study_preferences :=
          (study_preferences (alice calm_classifier))\<lparr>study_duration := 2 * 2 ^ 1024\<rparr>\<rparr>"

definition first_day :: pydate where
  "first_day = \<lparr>year = 2024, month = 1, day = 1\<rparr>"

definition second_day :: pydate where
  "second_day = \<lparr>year = 2024, month = 1, day = 2\<rparr>"

definition last_day :: pydate where
  "last_day = \<lparr>year = 9999, month = 12, day = 31\<rparr>"

definition quiet :: world where
  "quiet = \<lparr>stdout = [], rand = (\<lambda>k. 0), today = \<lparr>year = 2024, month = 1, day = 1\<rparr>,
            files = Map.empty, write_denied = {}, read_denied = {}\<rparr>"

text \<open>A number that orders dates as the calendar does.\<close>

definition date_key :: "pydate \<Rightarrow> nat" where
  "date_key d = year d * 10000 + month d * 100 + day d"

section \<open>Auxiliary facts\<close>

subsection \<open>Dates and their strings\<close>

lemma days_in_month_bounds: "28 \<le> days_in_month y m \<and> days_in_month y m \<le> 31"
  by (simp add: days_in_month_def)

lemma add_one_day_valid:
  assumes "valid_date d" and "add_one_day d = Inr d'"
  shows "valid_date d' \<and> date_key d < date_key d'"
proof -
  have b: "28 \<le> days_in_month (year d) (month d)" "days_in_month (year d) (month d) \<le> 31"
    using days_in_month_bounds by simp_all
  consider (a) "day d < days_in_month (year d) (month d)"
    | (b) "\<not> day d < days_in_month (year d) (month d)" "month d < 12"
    | (c) "\<not> day d < days_in_month (year d) (month d)" "\<not> month d < 12" "year d < 9999"
    | (e) "\<not> day d < days_in_month (year d) (month d)" "\<not> month d < 12" "\<not> year d < 9999"
    by blast
  then show ?thesis
  proof cases
    case a
    then have "d' = d\<lparr>day := day d + 1\<rparr>" using assms(2) by (simp add: add_one_day_def)
    then show ?thesis using a assms(1) by (simp add: valid_date_def date_key_def)
  next
    case b
    then have d': "d' = d\<lparr>month := month d + 1, day := 1\<rparr>"
      using assms(2) by (simp add: add_one_day_def)
    have "28 \<le> days_in_month (year d) (month d + 1)" using days_in_month_bounds by simp
    then show ?thesis using b d' assms(1) \<open>days_in_month (year d) (month d) \<le> 31\<close>
      by (simp add: valid_date_def date_key_def)
  next
    case c
    then have d': "d' = d\<lparr>year := year d + 1, month := 1, day := 1\<rparr>"
      using assms(2) by (simp add: add_one_day_def)
    have "28 \<le> days_in_month (year d + 1) 1" using days_in_month_bounds by simp
    then show ?thesis using c d' assms(1) \<open>days_in_month (year d) (month d) \<le> 31\<close>
      by (simp add: valid_date_def date_key_def)
  next
    case e
    then show ?thesis using assms(2) by (simp add: add_one_day_def)
  qed
qed

lemma digit_inj:
  assumes "a < 10" and "b < 10" and "digit a = digit b"
  shows "a = b"
proof -
  have d: "distinct ''0123456789''" by simp
  have l: "length ''0123456789'' = 10" by simp
  have "''0123456789'' ! a = ''0123456789'' ! b"
    using assms(3) unfolding digit_def mod_less [OF assms(1)] mod_less [OF assms(2)] .
  with d l assms(1,2) show ?thesis
    by (simp only: nth_eq_iff_index_eq)
qed

lemma digit_mod_inj:
  assumes "digit a = digit b"
  shows "a mod 10 = b mod 10"
proof -
  have "digit (a mod 10) = digit (b mod 10)"
    using assms unfolding digit_def mod_mod_trivial .
  moreover have "a mod 10 < 10" "b mod 10 < 10" by simp_all
  ultimately show ?thesis
    by (rule digit_inj [rotated 2])
qed

lemma two_digits:
  fixes a b :: nat
  assumes "a div 10 = b div 10" and "a mod 10 = b mod 10"
  shows "a = b"
proof -
  have "a = 10 * (a div 10) + a mod 10" "b = 10 * (b div 10) + b mod 10"
    by simp_all
  with assms show ?thesis by metis
qed

lemma pad2_inj:
  assumes "a < 100" and "b < 100" and "pad2 a = pad2 b"
  shows "a = b"
proof -
  from assms(3) have d1: "digit (a div 10) = digit (b div 10)" and d0: "digit a = digit b"
    unfolding pad2_def by simp_all
  have "a div 10 < 10" "b div 10 < 10" using assms(1,2) by simp_all
  with digit_inj d1 have "a div 10 = b div 10" by blast
  then show ?thesis using digit_mod_inj [OF d0] by (rule two_digits)
qed

lemma pad4_inj:
  assumes "a < 10000" and "b < 10000" and "pad4 a = pad4 b"
  shows "a = b"
proof -
  from assms(3) have d3: "digit (a div 1000) = digit (b div 1000)"
    and d2: "digit (a div 100) = digit (b div 100)"
    and d1: "digit (a div 10) = digit (b div 10)" and d0: "digit a = digit b"
    unfolding pad4_def by simp_all
  have "a div 1000 < 10" "b div 1000 < 10" using assms(1,2) by simp_all
  with digit_inj d3 have "a div 1000 = b div 1000" by blast
  then have "a div 100 div 10 = b div 100 div 10"
    by (simp add: div_mult2_eq [symmetric])
  then have "a div 100 = b div 100"
    using digit_mod_inj [OF d2] by (rule two_digits)
  then have "a div 10 div 10 = b div 10 div 10"
    by (simp add: div_mult2_eq [symmetric])
  then have "a div 10 = b div 10"
    using digit_mod_inj [OF d1] by (rule two_digits)
  then show ?thesis using digit_mod_inj [OF d0] by (rule two_digits)
qed

lemma strftime_inj:
  assumes "valid_date a" and "valid_date b" and "strftime a = strftime b"
  shows "a = b"
proof -
  have l: "length (pad4 (year a)) = length (pad4 (year b))"
    "length (pad2 (month a)) = length (pad2 (month b))"
    by (simp_all add: pad4_def pad2_def)
  from assms(3) l have p: "pad4 (year a) = pad4 (year b)" "pad2 (month a) = pad2 (month b)"
    "pad2 (day a) = pad2 (day b)"
    unfolding strftime_def by simp_all
  have "year a < 10000" "year b < 10000" "month a < 100" "month b < 100"
    using assms(1,2) by (simp_all add: valid_date_def)
  moreover have "day a < 100" "day b < 100"
    using assms(1,2) days_in_month_bounds [of "year a" "month a"]
      days_in_month_bounds [of "year b" "month b"]
    by (simp_all add: valid_date_def)
  ultimately have "year a = year b" "month a = month b" "day a = day b"
    using p pad4_inj pad2_inj by blast+
  then show ?thesis by simp
qed

subsection \<open>Division\<close>

lemma gap_above_one:
  fixes x y :: real
  assumes "2 * x \<le> y" and "2 \<le> x"
  shows "1 < y - x"
  using assms by linarith

lemma float_limit_large: "1 < float_limit"
proof -
  have "(2::real) ^ Suc 970 \<le> 2 ^ 1024" by (rule power_increasing) simp_all
  then have a: "2 * (2::real) ^ 970 \<le> 2 ^ 1024" by (simp only: power_Suc)
  have "(2::real) ^ 1 \<le> 2 ^ 970" by (rule power_increasing) simp_all
  then have b: "(2::real) \<le> 2 ^ 970" by (simp only: power_one_right)
  show ?thesis unfolding float_limit_def by (rule gap_above_one [OF a b])
qed

lemma true_divide_Inr:
  "true_divide a b = Inr q \<longleftrightarrow>
     b \<noteq> 0 \<and> \<bar>real_of_int a / real b\<bar> < float_limit \<and> q = real_of_int a / real b"
  by (auto simp: true_divide_def)

lemma true_divide_small:
  assumes "b \<noteq> 0" and "\<bar>real_of_int a / real b\<bar> \<le> 1"
  shows "true_divide a b = Inr (real_of_int a / real b)"
proof -
  from assms(2) float_limit_large
  have "\<not> float_limit \<le> \<bar>real_of_int a / real b\<bar>" by linarith
  with assms(1) show ?thesis by (simp only: true_divide_def if_False)
qed

subsection \<open>The loop over the subjects\<close>

lemma prioritize_task_fst:
  "fst (prioritize_task self s td w) = fst (prioritize_task self s td w')"
  by (simp add: prioritize_task_def split: sum.splits option.splits prod.splits)

lemma prioritize_task_snd:
  "\<exists>out. snd (prioritize_task self s td w) = w\<lparr>stdout := stdout w @ out\<rparr>"
proof (cases "nlp_model self td")
  case (Inl e)
  have "snd (prioritize_task self s td w) =
          w\<lparr>stdout := stdout w @ [''Error performing sentiment analysis: '' @ e @
                    ''.  Defaulting to medium priority.'']\<rparr>"
    using Inl by (simp add: prioritize_task_def print_def)
  then show ?thesis by blast
next
  case (Inr r)
  have "snd (prioritize_task self s td w) = w\<lparr>stdout := stdout w @ []\<rparr>"
    using Inr by (simp add: prioritize_task_def split: prod.splits option.splits)
  then show ?thesis by blast
qed

lemma prioritize_task_returns:
  assumes "weaknesses self s \<noteq> None"
  shows "\<exists>p. fst (prioritize_task self s td w) = Inr p"
  using assms by (auto simp: prioritize_task_def split: sum.splits option.splits prod.splits)

lemma study_blocks_loop_ConsE:
  assumes "study_blocks_loop self t (s # ss) w = (Inr bs, w')"
  obtains focus p w2 bs' where
    "areas_to_focus self s = Some focus"
    "study_methods (study_preferences self) \<noteq> []"
    "prioritize_task self s
       (''Review '' @ focus @ '' using '' @
        study_methods (study_preferences self) !
          (rand w 0 mod length (study_methods (study_preferences self))))
       (w\<lparr>rand := (\<lambda>k. rand w (Suc k))\<rparr>) = (Inr p, w2)"
    "study_blocks_loop self t ss w2 = (Inr bs', w')"
    "bs = \<lparr>subject = s, time = t,
           task = ''Review '' @ focus @ '' using '' @
                  study_methods (study_preferences self) !
                    (rand w 0 mod length (study_methods (study_preferences self))),
           priority = p\<rparr> # bs'"
  using assms
  by (auto simp: random_choice_def Let_def
           split: option.splits sum.splits prod.splits if_splits)

lemma study_blocks_loop_Inr:
  assumes "study_blocks_loop self t ss w = (Inr bs, w')"
  shows "length bs = length ss \<and>
         (\<exists>out. w' = w\<lparr>stdout := stdout w @ out, rand := (\<lambda>k. rand w (k + length ss))\<rparr>) \<and>
         (\<forall>i < length ss.
              subject (bs ! i) = ss ! i \<and> time (bs ! i) = t \<and>
              task (bs ! i) =
                ''Review '' @ the (areas_to_focus self (ss ! i)) @ '' using '' @
                study_methods (study_preferences self) !
                  (rand w i mod length (study_methods (study_preferences self))) \<and>
              fst (prioritize_task self (ss ! i) (task (bs ! i)) w0) = Inr (priority (bs ! i)))"
  using assms
proof (induction ss arbitrary: w bs)
  case Nil
  then have e: "bs = []" "w' = w" by simp_all
  show ?case unfolding e
    apply (intro conjI)
      apply simp
     apply (rule exI [of _ "[]"])
     apply simp
    apply simp
    done
next
  case (Cons s ss)
  let ?ms = "study_methods (study_preferences self)"
  let ?w1 = "w\<lparr>rand := (\<lambda>k. rand w (Suc k))\<rparr>"
  from Cons.prems obtain focus p w2 bs' where
    focus: "areas_to_focus self s = Some focus"
    and pt: "prioritize_task self s
               (''Review '' @ focus @ '' using '' @ ?ms ! (rand w 0 mod length ?ms)) ?w1 = (Inr p, w2)"
    and rest: "study_blocks_loop self t ss w2 = (Inr bs', w')"
    and bs: "bs = \<lparr>subject = s, time = t,
                   task = ''Review '' @ focus @ '' using '' @ ?ms ! (rand w 0 mod length ?ms),
                   priority = p\<rparr> # bs'"
    by (rule study_blocks_loop_ConsE)
  let ?td = "''Review '' @ focus @ '' using '' @ ?ms ! (rand w 0 mod length ?ms)"
  obtain out1 where "snd (prioritize_task self s ?td ?w1) = ?w1\<lparr>stdout := stdout ?w1 @ out1\<rparr>"
    using prioritize_task_snd by blast
  with pt have w2: "w2 = ?w1\<lparr>stdout := stdout ?w1 @ out1\<rparr>" by simp
  from Cons.IH [OF rest] obtain out where
    len: "length bs' = length ss"
    and w': "w' = w2\<lparr>stdout := stdout w2 @ out, rand := (\<lambda>k. rand w2 (k + length ss))\<rparr>"
    and each: "\<forall>i < length ss.
              subject (bs' ! i) = ss ! i \<and> time (bs' ! i) = t \<and>
              task (bs' ! i) =
                ''Review '' @ the (areas_to_focus self (ss ! i)) @ '' using '' @
                ?ms ! (rand w2 i mod length ?ms) \<and>
              fst (prioritize_task self (ss ! i) (task (bs' ! i)) w0) = Inr (priority (bs' ! i))"
    by blast
  have p0: "fst (prioritize_task self s ?td w0) = Inr p"
    using pt prioritize_task_fst [of self s ?td w0 ?w1] by simp
  have len': "length bs = length (s # ss)"
    using len bs by simp
  have world: "w' = w\<lparr>stdout := stdout w @ (out1 @ out),
                       rand := (\<lambda>k. rand w (k + length (s # ss)))\<rparr>"
    using w' w2 by simp
  have all: "\<forall>i < length (s # ss).
              subject (bs ! i) = (s # ss) ! i \<and> time (bs ! i) = t \<and>
              task (bs ! i) =
                ''Review '' @ the (areas_to_focus self ((s # ss) ! i)) @ '' using '' @
                ?ms ! (rand w i mod length ?ms) \<and>
              fst (prioritize_task self ((s # ss) ! i) (task (bs ! i)) w0) =
                Inr (priority (bs ! i))"
  proof (intro allI impI)
    fix i assume i: "i < length (s # ss)"
    show "subject (bs ! i) = (s # ss) ! i \<and> time (bs ! i) = t \<and>
              task (bs ! i) =
                ''Review '' @ the (areas_to_focus self ((s # ss) ! i)) @ '' using '' @
                ?ms ! (rand w i mod length ?ms) \<and>
              fst (prioritize_task self ((s # ss) ! i) (task (bs ! i)) w0) =
                Inr (priority (bs ! i))"
    proof (cases i)
      case 0
      then show ?thesis using focus p0 bs by simp
    next
      case (Suc j)
      with i have j: "j < length ss" by simp
      have r: "rand w2 j = rand w (Suc j)" using w2 by simp
      from each [rule_format, OF j, unfolded r]
      show ?thesis unfolding Suc bs nth_Cons_Suc .
    qed
  qed
  from len' world all show ?case by blast
qed

lemma study_blocks_loop_needs:
  assumes "study_blocks_loop self t ss w = (Inr bs, w')"
  shows "(\<forall>s \<in> set ss. areas_to_focus self s \<noteq> None) \<and>
         (ss \<noteq> [] \<longrightarrow> study_methods (study_preferences self) \<noteq> [])"
  using assms
proof (induction ss arbitrary: w bs)
  case Nil
  then show ?case by simp
next
  case (Cons s ss)
  from Cons.prems obtain focus p w2 bs' where
    "areas_to_focus self s = Some focus" "study_methods (study_preferences self) \<noteq> []"
    "study_blocks_loop self t ss w2 = (Inr bs', w')"
    by (rule study_blocks_loop_ConsE)
  with Cons.IH show ?case by auto
qed

lemma study_blocks_loop_returns:
  assumes "study_methods (study_preferences self) \<noteq> []"
    and "\<forall>s \<in> set ss. weaknesses self s \<noteq> None \<and> areas_to_focus self s \<noteq> None"
  shows "\<exists>bs w'. study_blocks_loop self t ss w = (Inr bs, w')"
  using assms(2)
proof (induction ss arbitrary: w)
  case Nil
  show ?case by simp
next
  case (Cons s ss)
  let ?ms = "study_methods (study_preferences self)"
  let ?w1 = "w\<lparr>rand := (\<lambda>k. rand w (Suc k))\<rparr>"
  from Cons.prems obtain focus where focus: "areas_to_focus self s = Some focus"
    and wk: "weaknesses self s \<noteq> None" by auto
  let ?td = "''Review '' @ focus @ '' using '' @ ?ms ! (rand w 0 mod length ?ms)"
  have rc: "random_choice ?ms w = (Inr (?ms ! (rand w 0 mod length ?ms)), ?w1)"
    using assms(1) by (simp add: random_choice_def)
  obtain p w2 where pt: "prioritize_task self s ?td ?w1 = (Inr p, w2)"
    using prioritize_task_returns [OF wk, of ?td ?w1] by (metis prod.collapse)
  from Cons.prems have "\<forall>s \<in> set ss. weaknesses self s \<noteq> None \<and> areas_to_focus self s \<noteq> None"
    by simp
  from Cons.IH [OF this, of w2] obtain bs w3 where
    "study_blocks_loop self t ss w2 = (Inr bs, w3)" by blast
  with focus rc pt show ?case by simp
qed

lemma generate_daily_plan_Inr:
  assumes "generate_daily_plan self d w = (Inr dp, w')"
  shows "subjects self \<noteq> [] \<and> time_fits self \<and>
         date dp = strftime d \<and>
         environment dp = study_environment (study_preferences self) \<and>
         preferred_time dp = study_time (study_preferences self) \<and>
         study_blocks_loop self
           (max 0.5 (real_of_int (study_duration (study_preferences self)) /
                     real (length (subjects self))))
           (subjects self) w = (Inr (study_blocks dp), w')"
proof -
  from assms obtain q where q: "true_divide (study_duration (study_preferences self))
                                  (length (subjects self)) = Inr q"
    by (cases "true_divide (study_duration (study_preferences self)) (length (subjects self))")
       (simp_all add: generate_daily_plan_def Let_def)
  then have fits: "subjects self \<noteq> [] \<and> time_fits self"
    and q': "q = real_of_int (study_duration (study_preferences self)) /
                 real (length (subjects self))"
    by (simp_all add: true_divide_Inr time_fits_def)
  from assms q show ?thesis unfolding q' [symmetric]
    using fits by (auto simp: generate_daily_plan_def Let_def split: prod.splits sum.splits)
qed

lemma true_divide_fits:
  assumes "subjects self \<noteq> []" and "time_fits self"
  shows "true_divide (study_duration (study_preferences self)) (length (subjects self)) =
           Inr (real_of_int (study_duration (study_preferences self)) /
                real (length (subjects self)))"
  using assms by (simp add: true_divide_Inr time_fits_def)

lemma generate_daily_plan_returns:
  assumes "subjects self \<noteq> []" and "well_formed self" and "time_fits self"
  shows "\<exists>dp w'. generate_daily_plan self d w = (Inr dp, w')"
proof -
  let ?t = "max 0.5 (real_of_int (study_duration (study_preferences self)) /
                     real (length (subjects self)))"
  from assms(2) obtain bs w' where
    "study_blocks_loop self ?t (subjects self) w = (Inr bs, w')"
    unfolding well_formed_def using study_blocks_loop_returns by blast
  with true_divide_fits [OF assms(1,3)] show ?thesis
    by (simp add: generate_daily_plan_def Let_def)
qed

lemma strftime_first_day: "strftime first_day = ''2024-01-01''"
  by (simp add: first_day_def strftime_def pad4_def pad2_def digit_def)

lemma generate_daily_plan_each:
  assumes "generate_daily_plan self d w = (Inr dp, w')"
    and "i < length (subjects self)"
  shows "length (study_blocks dp) = length (subjects self) \<and>
         subject (study_blocks dp ! i) = subjects self ! i \<and>
         time (study_blocks dp ! i) =
           max 0.5 (real_of_int (study_duration (study_preferences self)) /
                    real (length (subjects self))) \<and>
         task (study_blocks dp ! i) =
           ''Review '' @ the (areas_to_focus self (subjects self ! i)) @ '' using '' @
           study_methods (study_preferences self) !
             (rand w i mod length (study_methods (study_preferences self))) \<and>
         fst (prioritize_task self (subjects self ! i) (task (study_blocks dp ! i)) w0) =
           Inr (priority (study_blocks dp ! i)) \<and>
         areas_to_focus self (subjects self ! i) \<noteq> None \<and>
         study_methods (study_preferences self) \<noteq> []"
proof -
  let ?t = "max 0.5 (real_of_int (study_duration (study_preferences self)) /
                     real (length (subjects self)))"
  from generate_daily_plan_Inr [OF assms(1)]
  have loop: "study_blocks_loop self ?t (subjects self) w = (Inr (study_blocks dp), w')"
    by simp
  from assms(2) have mem: "subjects self ! i \<in> set (subjects self)" and ne: "subjects self \<noteq> []"
    by auto
  from study_blocks_loop_needs [OF loop] mem ne
  have "areas_to_focus self (subjects self ! i) \<noteq> None"
    "study_methods (study_preferences self) \<noteq> []" by blast+
  moreover from study_blocks_loop_Inr [OF loop, of w0] assms(2)
  have "length (study_blocks dp) = length (subjects self)"
    "subject (study_blocks dp ! i) = subjects self ! i \<and>
     time (study_blocks dp ! i) = ?t \<and>
     task (study_blocks dp ! i) =
           ''Review '' @ the (areas_to_focus self (subjects self ! i)) @ '' using '' @
           study_methods (study_preferences self) !
             (rand w i mod length (study_methods (study_preferences self))) \<and>
     fst (prioritize_task self (subjects self ! i) (task (study_blocks dp ! i)) w0) =
           Inr (priority (study_blocks dp ! i))"
    by blast+
  ultimately show ?thesis by blast
qed

lemma generate_daily_plan_subjects:
  assumes "generate_daily_plan self d w = (Inr dp, w')"
  shows "map subject (study_blocks dp) = subjects self"
proof (rule nth_equalityI)
  from generate_daily_plan_Inr [OF assms]
  have "study_blocks_loop self
           (max 0.5 (real_of_int (study_duration (study_preferences self)) /
                     real (length (subjects self))))
           (subjects self) w = (Inr (study_blocks dp), w')" by simp
  from study_blocks_loop_Inr [OF this]
  show len: "length (map subject (study_blocks dp)) = length (subjects self)" by simp
  fix i assume "i < length (map subject (study_blocks dp))"
  with len have i: "i < length (subjects self)" by simp
  from generate_daily_plan_each [OF assms i] i
  show "map subject (study_blocks dp) ! i = subjects self ! i" by simp
qed

lemma alice_day_failing:
  "generate_daily_plan (alice (\<lambda>t. Inl ''model unavailable'')) first_day quiet =
     (Inr (alice_day ''2024-01-01'' ''Medium''),
      quiet\<lparr>stdout :=
        [''Error performing sentiment analysis: model unavailable.  Defaulting to medium priority.'',
         ''Error performing sentiment analysis: model unavailable.  Defaulting to medium priority.'']\<rparr>)"
  by (simp add: generate_daily_plan_def true_divide_small alice_def quiet_def random_choice_def
      prioritize_task_def print_def strftime_first_day Let_def alice_day_def block_def)

lemma carol_day_negative:
  "generate_daily_plan (carol (\<lambda>t. Inr (''NEGATIVE'', 0.85))) first_day quiet =
     (Inr (carol_day ''2024-01-01'' ''High''), quiet)"
  by (simp add: generate_daily_plan_def true_divide_small carol_def alice_def quiet_def random_choice_def
      prioritize_task_def print_def strftime_first_day Let_def carol_day_def block_def)

lemma sum_list_same:
  fixes f :: "'a \<Rightarrow> real"
  assumes "\<forall>b \<in> set bs. f b = t"
  shows "sum_list (map f bs) = real (length bs) * t"
  using assms by (induction bs) (simp_all add: algebra_simps)

lemma alice_day_positive:
  "generate_daily_plan (alice (\<lambda>t. Inr (''POSITIVE'', 0.9))) first_day quiet =
     (Inr (alice_day ''2024-01-01'' ''Medium''), quiet)"
  by (simp add: generate_daily_plan_def true_divide_small alice_def quiet_def random_choice_def
      prioritize_task_def print_def strftime_first_day Let_def alice_day_def block_def
      sublist_Cons_right prefix_code)

lemma prioritize_task_failing:
  assumes "nlp_model self td = Inl e"
  shows "prioritize_task self subj td w =
           (Inr ''Medium'',
            print (''Error performing sentiment analysis: '' @ e @
                   ''.  Defaulting to medium priority.'') w)"
  using assms by (simp add: prioritize_task_def)

lemma study_blocks_loop_returns_failing:
  assumes "study_methods (study_preferences self) \<noteq> []"
    and "\<forall>t. isl (nlp_model self t)"
    and "\<forall>s \<in> set ss. areas_to_focus self s \<noteq> None"
  shows "\<exists>bs w'. study_blocks_loop self t ss w = (Inr bs, w')"
  using assms(3)
proof (induction ss arbitrary: w)
  case Nil
  show ?case by simp
next
  case (Cons s ss)
  let ?ms = "study_methods (study_preferences self)"
  let ?w1 = "w\<lparr>rand := (\<lambda>k. rand w (Suc k))\<rparr>"
  from Cons.prems obtain focus where focus: "areas_to_focus self s = Some focus" by auto
  let ?td = "''Review '' @ focus @ '' using '' @ ?ms ! (rand w 0 mod length ?ms)"
  have rc: "random_choice ?ms w = (Inr (?ms ! (rand w 0 mod length ?ms)), ?w1)"
    using assms(1) by (simp add: random_choice_def)
  from assms(2) obtain e where "nlp_model self ?td = Inl e"
    by (metis isl_def)
  from prioritize_task_failing [OF this]
  obtain w2 where pt: "prioritize_task self s ?td ?w1 = (Inr ''Medium'', w2)" by blast
  from Cons.prems have "\<forall>s \<in> set ss. areas_to_focus self s \<noteq> None" by simp
  from Cons.IH [OF this, of w2] obtain bs w3 where
    "study_blocks_loop self t ss w2 = (Inr bs, w3)" by blast
  with focus rc pt show ?case by simp
qed

lemma generate_daily_plan_priority:
  assumes "generate_daily_plan self d w = (Inr dp, w')"
    and "b \<in> set (study_blocks dp)"
  shows "\<exists>i < length (subjects self).
           b = study_blocks dp ! i \<and>
           task b = ''Review '' @ the (areas_to_focus self (subjects self ! i)) @ '' using '' @
                    study_methods (study_preferences self) !
                      (rand w i mod length (study_methods (study_preferences self))) \<and>
           areas_to_focus self (subjects self ! i) \<noteq> None \<and>
           fst (prioritize_task self (subjects self ! i) (task b) w0) = Inr (priority b)"
proof -
  from assms(2) obtain i where i: "i < length (study_blocks dp)" and b: "b = study_blocks dp ! i"
    by (metis in_set_conv_nth)
  have "length (map subject (study_blocks dp)) = length (subjects self)"
    using generate_daily_plan_subjects [OF assms(1)] by simp
  with i have i': "i < length (subjects self)" by simp
  from generate_daily_plan_each [OF assms(1) i', of w0] b i' show ?thesis by blast
qed

subsection \<open>The focus areas\<close>

lemma focus_loop_Inr:
  assumes "focus_loop self ss = (Inr (), self')"
  shows "self' = self\<lparr>areas_to_focus :=
                     (\<lambda>k. if k \<in> set ss then weaknesses self k else areas_to_focus self k)\<rparr> \<and>
         (\<forall>s \<in> set ss. weaknesses self s \<noteq> None)"
  using assms
proof (induction ss arbitrary: self)
  case Nil
  then show ?case by simp
next
  case (Cons s ss)
  from Cons.prems obtain wk where wk: "weaknesses self s = Some wk"
    by (cases "weaknesses self s") simp_all
  let ?self1 = "self\<lparr>areas_to_focus := (areas_to_focus self)(s \<mapsto> wk)\<rparr>"
  from Cons.prems wk have "focus_loop ?self1 ss = (Inr (), self')" by simp
  from Cons.IH [OF this]
  have 1: "self' = ?self1\<lparr>areas_to_focus :=
             (\<lambda>k. if k \<in> set ss then weaknesses ?self1 k else areas_to_focus ?self1 k)\<rparr>"
    and 2: "\<forall>s \<in> set ss. weaknesses ?self1 s \<noteq> None" by blast+
  have "(\<lambda>k. if k \<in> set ss then weaknesses ?self1 k else areas_to_focus ?self1 k) =
        (\<lambda>k. if k \<in> set (s # ss) then weaknesses self k else areas_to_focus self k)"
    using wk by (auto simp: fun_eq_iff)
  with 1 have "self' = self\<lparr>areas_to_focus :=
             (\<lambda>k. if k \<in> set (s # ss) then weaknesses self k else areas_to_focus self k)\<rparr>"
    by simp
  moreover from 2 wk have "\<forall>x \<in> set (s # ss). weaknesses self x \<noteq> None" by simp
  ultimately show ?case by blast
qed

lemma analyze_student_data_Inr:
  assumes "analyze_student_data self w = (Inr (), self', w')"
  shows "subjects self' = subjects self \<and> weaknesses self' = weaknesses self \<and>
         nlp_model self' = nlp_model self \<and>
         study_preferences self' = study_preferences self \<and>
         study_plan self' = study_plan self \<and>
         (\<forall>s \<in> set (subjects self).
            weaknesses self s \<noteq> None \<and> areas_to_focus self' s = weaknesses self s)"
proof -
  let ?self0 = "self\<lparr>areas_to_focus := Map.empty\<rparr>"
  from assms have "focus_loop ?self0 (subjects self) = (Inr (), self')"
    by (simp add: analyze_student_data_def Let_def split: prod.splits)
  from focus_loop_Inr [OF this] show ?thesis by simp
qed

lemma analyze_alice:
  "analyze_student_data (alice c) quiet =
     (Inr (), alice c,
      print (CHR 0x0A # ''Analyzing your information...'' @ [CHR 0x0A]) quiet)"
  by (simp add: analyze_student_data_def alice_def Let_def)

subsection \<open>The loop over the days\<close>

lemma plan_days_frame:
  assumes "plan_days self d n w = (r, self', w')"
  shows "self' = self\<lparr>study_plan := study_plan self'\<rparr> \<and>
         (\<forall>k. k \<notin> strftime ` set (days_from d n) \<longrightarrow> study_plan self' k = study_plan self k) \<and>
         dom (study_plan self) \<subseteq> dom (study_plan self')"
  using assms
proof (induction n arbitrary: self d w)
  case 0
  then show ?case by simp
next
  case (Suc n)
  show ?case
  proof (cases "generate_daily_plan self d w")
    case (Pair res w1)
    show ?thesis
    proof (cases res)
      case (Inl e)
      with Pair Suc.prems have "self' = self" by simp
      then show ?thesis by simp
    next
      case (Inr dp)
      let ?self1 = "self\<lparr>study_plan := (study_plan self)(strftime d \<mapsto> dp)\<rparr>"
      show ?thesis
      proof (cases "add_one_day d")
        case (Inl e)
        with Pair Inr Suc.prems have e: "self' = ?self1" by (simp add: Let_def)
        have a: "self' = self\<lparr>study_plan := study_plan self'\<rparr>"
          unfolding e by simp
        have b: "\<forall>k. k \<notin> strftime ` set (days_from d (Suc n)) \<longrightarrow>
                     study_plan self' k = study_plan self k"
          unfolding e using Inl by simp
        have c: "dom (study_plan self) \<subseteq> dom (study_plan self')"
          unfolding e by auto
        from a b c show ?thesis by blast
      next
        case next_day: (Inr d')
        with Pair Inr Suc.prems have "plan_days ?self1 d' n w1 = (r, self', w')"
          by (simp add: Let_def)
        from Suc.IH [OF this]
        have 1: "self' = ?self1\<lparr>study_plan := study_plan self'\<rparr>"
          and 2: "\<forall>k. k \<notin> strftime ` set (days_from d' n) \<longrightarrow>
                     study_plan self' k = study_plan ?self1 k"
          and 3: "dom (study_plan ?self1) \<subseteq> dom (study_plan self')"
          by blast+
        from 1 have a: "self' = self\<lparr>study_plan := study_plan self'\<rparr>"
          by (metis StudBud.surjective StudBud.update_convs(2))
        from 2 next_day
        have b: "\<forall>k. k \<notin> strftime ` set (days_from d (Suc n)) \<longrightarrow>
                     study_plan self' k = study_plan self k" by simp
        from 3 have c: "dom (study_plan self) \<subseteq> dom (study_plan self')" by auto
        from a b c show ?thesis by blast
      qed
    qed
  qed
qed

lemma add_one_day_first_day: "add_one_day first_day = Inr second_day"
  by (simp add: first_day_def second_day_def add_one_day_def days_in_month_def)

lemma strftime_second_day: "strftime second_day = ''2024-01-02''"
  by (simp add: second_day_def strftime_def pad4_def pad2_def digit_def)

lemma prioritize_task_study_plan:
  "prioritize_task (self\<lparr>study_plan := p\<rparr>) s td w = prioritize_task self s td w"
  by (simp add: prioritize_task_def cong: sum.case_cong prod.case_cong option.case_cong if_cong)

lemma study_blocks_loop_study_plan:
  "study_blocks_loop (self\<lparr>study_plan := p\<rparr>) t ss w = study_blocks_loop self t ss w"
  by (induction ss arbitrary: w)
     (simp_all add: prioritize_task_study_plan Let_def
        cong: sum.case_cong prod.case_cong option.case_cong)

lemma generate_daily_plan_study_plan:
  "generate_daily_plan (self\<lparr>study_plan := p\<rparr>) d w = generate_daily_plan self d w"
  by (simp add: generate_daily_plan_def study_blocks_loop_study_plan Let_def
        cong: sum.case_cong prod.case_cong if_cong)

lemma alice_calm_day:
  "generate_daily_plan (alice calm_classifier) d quiet =
     (Inr (alice_day (strftime d) ''Medium''), quiet)"
  by (simp add: generate_daily_plan_def true_divide_small alice_def quiet_def random_choice_def
      calm_classifier_def prioritize_task_def Let_def alice_day_def block_def
      sublist_Cons_right prefix_code)

lemma returning_day:
  "generate_daily_plan (returning\<lparr>study_plan := p\<rparr>) d quiet =
     (Inr (alice_day (strftime d) ''Medium''), quiet)"
  by (simp add: returning_def generate_daily_plan_study_plan alice_calm_day)

lemma add_one_day_second_day:
  "add_one_day second_day = Inr \<lparr>year = 2024, month = 1, day = 3\<rparr>"
  by (simp add: second_day_def add_one_day_def days_in_month_def)

lemma returning_day0:
  "generate_daily_plan returning d quiet = (Inr (alice_day (strftime d) ''Medium''), quiet)"
  using returning_day [of "study_plan returning" d] by simp

lemma returning_two_days:
  "generate_study_plan returning (Some first_day) 2 quiet =
     (Inr (),
      returning\<lparr>study_plan :=
        (study_plan returning)
          (''2024-01-01'' \<mapsto> alice_day ''2024-01-01'' ''Medium'',
           ''2024-01-02'' \<mapsto> alice_day ''2024-01-02'' ''Medium'')\<rparr>,
      quiet)"
proof -
  have "subjects returning \<noteq> []" by (simp add: returning_def alice_def)
  then show ?thesis
    by (simp add: generate_study_plan_def numeral_2_eq_2 returning_day returning_day0
        add_one_day_first_day add_one_day_second_day strftime_first_day strftime_second_day
        Let_def)
qed

lemma days_from_first_day: "days_from first_day (nat 2) = [first_day, second_day]"
  by (simp add: numeral_2_eq_2 add_one_day_first_day add_one_day_second_day)

lemma days_from_valid:
  assumes "valid_date d" and "x \<in> set (days_from d n)"
  shows "valid_date x \<and> date_key d \<le> date_key x"
  using assms
proof (induction n arbitrary: d)
  case 0
  then show ?case by simp
next
  case (Suc n)
  show ?case
  proof (cases "x = d")
    case True
    with Suc.prems show ?thesis by simp
  next
    case False
    with Suc.prems obtain d' where d': "add_one_day d = Inr d'" and x: "x \<in> set (days_from d' n)"
      by (cases "add_one_day d") auto
    from add_one_day_valid [OF Suc.prems(1) d'] Suc.IH [OF _ x]
    show ?thesis by auto
  qed
qed

lemma days_from_year:
  assumes "valid_date d" and "x \<in> set (days_from d n)"
  shows "year d \<le> year x"
proof -
  from days_from_valid [OF assms] have vx: "valid_date x" and k: "date_key d \<le> date_key x"
    by simp_all
  from assms(1) days_in_month_bounds [of "year d" "month d"]
  have "month d * 100 + day d < 10000" by (simp add: valid_date_def)
  moreover from vx days_in_month_bounds [of "year x" "month x"]
  have "month x * 100 + day x < 10000" by (simp add: valid_date_def)
  ultimately show ?thesis using k unfolding date_key_def by linarith
qed

lemma strftime_length: "length (strftime d) = 10"
  by (simp add: strftime_def pad4_def pad2_def)

lemma days_from_distinct:
  assumes "valid_date d"
  shows "distinct (map strftime (days_from d n))"
  using assms
proof (induction n arbitrary: d)
  case 0
  show ?case by simp
next
  case (Suc n)
  show ?case
  proof (cases "add_one_day d")
    case (Inl e)
    then show ?thesis by simp
  next
    case (Inr d')
    note v = add_one_day_valid [OF Suc.prems Inr]
    have "strftime d \<noteq> strftime x" if "x \<in> set (days_from d' n)" for x
    proof
      assume eq: "strftime d = strftime x"
      from days_from_valid [OF v [THEN conjunct1] that]
      have vx: "valid_date x" and "date_key d' \<le> date_key x" by simp_all
      with v have "date_key d < date_key x" by simp
      moreover from strftime_inj [OF Suc.prems vx eq] have "d = x" .
      ultimately show False by simp
    qed
    with Suc.IH [OF v [THEN conjunct1]] Inr show ?thesis by auto
  qed
qed

lemma days_from_length:
  assumes "in_range d n"
  shows "length (days_from d n) = n"
  using assms
  by (induction n arbitrary: d) (auto split: sum.splits)

lemma days_from_consecutive:
  assumes "in_range d n" and "Suc i < n"
  shows "add_one_day (days_from d n ! i) = Inr (days_from d n ! Suc i)"
  using assms
proof (induction n arbitrary: d i)
  case 0
  then show ?case by simp
next
  case (Suc n)
  from Suc.prems(1) obtain d' where d': "add_one_day d = Inr d'" and r: "in_range d' n"
    by (cases "add_one_day d") auto
  from Suc.prems(2) obtain m where n: "n = Suc m" by (cases n) auto
  show ?case
  proof (cases i)
    case 0
    with d' n show ?thesis by simp
  next
    case (Suc j)
    with Suc.prems(2) have "Suc j < n" by simp
    from Suc.IH [OF r this] d' Suc show ?thesis by simp
  qed
qed

lemma generate_daily_plan_world:
  assumes "generate_daily_plan self d w = (Inr dp, w')"
  shows "\<exists>out. w' = w\<lparr>stdout := stdout w @ out,
                        rand := (\<lambda>k. rand w (k + length (subjects self)))\<rparr>"
proof -
  from generate_daily_plan_Inr [OF assms]
  have "study_blocks_loop self
           (max 0.5 (real_of_int (study_duration (study_preferences self)) /
                     real (length (subjects self))))
           (subjects self) w = (Inr (study_blocks dp), w')" by simp
  from study_blocks_loop_Inr [OF this] show ?thesis by blast
qed

lemma well_formed_study_plan: "well_formed (self\<lparr>study_plan := p\<rparr>) = well_formed self"
  by (simp add: well_formed_def)

lemma time_fits_study_plan: "time_fits (self\<lparr>study_plan := p\<rparr>) = time_fits self"
  by (simp add: time_fits_def)

lemma plan_days_ok:
  assumes "subjects self \<noteq> []" and "well_formed self" and "time_fits self"
    and "valid_date d" and "in_range d n"
  shows "\<exists>self' out.
           plan_days self d n w =
             (Inr (), self',
              w\<lparr>stdout := stdout w @ out,
                rand := (\<lambda>k. rand w (k + n * length (subjects self)))\<rparr>) \<and>
           (\<forall>x \<in> set (days_from d n).
              \<exists>dp wi wi'. study_plan self' (strftime x) = Some dp \<and>
                           generate_daily_plan self x wi = (Inr dp, wi'))"
  using assms
proof (induction n arbitrary: self d w)
  case 0
  have "plan_days self d 0 w =
          (Inr (), self, w\<lparr>stdout := stdout w @ [],
                            rand := (\<lambda>k. rand w (k + 0 * length (subjects self)))\<rparr>)"
    by simp
  then show ?case by (intro exI [of _ self] exI [of _ "[]"]) simp
next
  case (Suc n)
  let ?L = "length (subjects self)"
  from generate_daily_plan_returns [OF Suc.prems(1,2,3)]
  obtain dp w1 where day: "generate_daily_plan self d w = (Inr dp, w1)" by blast
  from generate_daily_plan_world [OF day] obtain out1 where
    w1: "w1 = w\<lparr>stdout := stdout w @ out1, rand := (\<lambda>k. rand w (k + ?L))\<rparr>" by blast
  from Suc.prems(5) obtain d' where d': "add_one_day d = Inr d'" and r: "in_range d' n"
    by (cases "add_one_day d") auto
  let ?self1 = "self\<lparr>study_plan := (study_plan self)(strftime d \<mapsto> dp)\<rparr>"
  have s1: "subjects ?self1 \<noteq> []" using Suc.prems(1) by simp
  have wf1: "well_formed ?self1" using Suc.prems(2) by (simp add: well_formed_study_plan)
  have tf1: "time_fits ?self1" using Suc.prems(3) by (simp add: time_fits_study_plan)
  note v' = add_one_day_valid [OF Suc.prems(4) d', THEN conjunct1]
  from Suc.IH [OF s1 wf1 tf1 v' r, of w1] obtain self' out2 where
    run: "plan_days ?self1 d' n w1 =
             (Inr (), self',
              w1\<lparr>stdout := stdout w1 @ out2,
                 rand := (\<lambda>k. rand w1 (k + n * length (subjects ?self1)))\<rparr>)"
    and rest: "\<forall>x \<in> set (days_from d' n).
              \<exists>dp wi wi'. study_plan self' (strftime x) = Some dp \<and>
                           generate_daily_plan ?self1 x wi = (Inr dp, wi')"
    by blast
  have world: "w1\<lparr>stdout := stdout w1 @ out2,
                 rand := (\<lambda>k. rand w1 (k + n * length (subjects ?self1)))\<rparr> =
               w\<lparr>stdout := stdout w @ (out1 @ out2),
                 rand := (\<lambda>k. rand w (k + Suc n * ?L))\<rparr>"
    unfolding w1 by (simp add: ac_simps)
  have res: "plan_days self d (Suc n) w =
               (Inr (), self',
                w\<lparr>stdout := stdout w @ (out1 @ out2),
                  rand := (\<lambda>k. rand w (k + Suc n * ?L))\<rparr>)"
    using day d' run world by (simp add: Let_def)
  have first: "study_plan self' (strftime d) = Some dp"
  proof -
    from days_from_distinct [OF Suc.prems(4), of "Suc n"] d'
    have "strftime d \<notin> strftime ` set (days_from d' n)" by simp
    with plan_days_frame [OF run] have "study_plan self' (strftime d) = study_plan ?self1 (strftime d)"
      by blast
    then show ?thesis by simp
  qed
  have all: "\<forall>x \<in> set (days_from d (Suc n)).
              \<exists>dp wi wi'. study_plan self' (strftime x) = Some dp \<and>
                           generate_daily_plan self x wi = (Inr dp, wi')"
  proof
    fix x assume "x \<in> set (days_from d (Suc n))"
    with d' have "x = d \<or> x \<in> set (days_from d' n)" by simp
    then show "\<exists>dp wi wi'. study_plan self' (strftime x) = Some dp \<and>
                           generate_daily_plan self x wi = (Inr dp, wi')"
    proof
      assume "x = d"
      with first day show ?thesis by blast
    next
      assume "x \<in> set (days_from d' n)"
      with rest show ?thesis by (simp add: generate_daily_plan_study_plan)
    qed
  qed
  from res all show ?case by blast
qed

lemma add_one_day_last_day: "add_one_day last_day = Inl OverflowError"
  by (simp add: last_day_def add_one_day_def days_in_month_def)

lemma strftime_last_day: "strftime last_day = ''9999-12-31''"
  by (simp add: last_day_def strftime_def pad4_def pad2_def digit_def)

lemma in_range_first_day: "in_range first_day (nat 2)"
  by (simp add: numeral_2_eq_2 add_one_day_first_day add_one_day_second_day)

lemma valid_first_day: "valid_date first_day"
  by (simp add: valid_date_def first_day_def days_in_month_def)

lemma tireless_overflows:
  "generate_daily_plan tireless first_day quiet = (Inl OverflowError, quiet)"
proof -
  have q: "real_of_int (2 * 2 ^ 1024) / real (Suc (Suc 0)) = 2 ^ 1024" by simp
  have "float_limit \<le> (2::real) ^ 1024" unfolding float_limit_def by simp
  then have "true_divide (2 * 2 ^ 1024) (Suc (Suc 0)) = Inl OverflowError"
    unfolding true_divide_def q by simp
  then show ?thesis
    by (simp add: generate_daily_plan_def tireless_def alice_def)
qed

lemma well_formed_alice: "well_formed (alice c)"
  by (simp add: well_formed_def alice_def)

lemma time_fits_alice: "time_fits (alice c)"
proof -
  have "\<bar>real_of_int (study_duration (study_preferences (alice c))) /
         real (length (subjects (alice c)))\<bar> \<le> 1"
    by (simp add: alice_def)
  with float_limit_large show ?thesis unfolding time_fits_def by linarith
qed

lemma alice_last_day:
  "subjects (alice calm_classifier) \<noteq> [] \<and>
   generate_study_plan (alice calm_classifier) (Some last_day) 2 quiet =
     (Inl OverflowError,
      (alice calm_classifier)
        \<lparr>study_plan := [''9999-12-31'' \<mapsto> alice_day ''9999-12-31'' ''Medium'']\<rparr>,
      quiet)"
proof -
  have s: "subjects (alice calm_classifier) \<noteq> []" by (simp add: alice_def)
  have e: "study_plan (alice calm_classifier) = Map.empty" by (simp add: alice_def)
  from s e show ?thesis
    by (simp add: generate_study_plan_def numeral_2_eq_2 alice_calm_day
        add_one_day_last_day strftime_last_day Let_def)
qed

section \<open>Properties\<close>

subsection \<open>The decision procedure of prioritize_task\<close>

text \<open>
  Claim C1. When the classifier returns a label and a score, \<open>prioritize_task\<close> answers
  by three rules tried in order: label \<open>NEGATIVE\<close> with a score strictly above 0.7 gives
  \<open>High\<close>, whatever the weakness is and whether or not one is recorded; otherwise a
  recorded weakness that occurs in the task description gives \<open>Medium\<close>; otherwise the
  answer is \<open>Low\<close>. Nothing is printed.
\<close>

theorem prioritize_task_rules:
  assumes "nlp_model self task_description = Inr (label, score)"
  shows "(label = ''NEGATIVE'' \<and> score > 0.7 \<longrightarrow>
            prioritize_task self subj task_description w = (Inr ''High'', w)) \<and>
         (\<not> (label = ''NEGATIVE'' \<and> score > 0.7) \<longrightarrow>
            weaknesses self subj = Some weakness \<longrightarrow>
            prioritize_task self subj task_description w =
              (Inr (if sublist weakness task_description then ''Medium'' else ''Low''), w))"
  using assms by (simp add: prioritize_task_def)

theorem prioritize_task_rules_witness:
  "prioritize_task (alice (\<lambda>t. Inr (''NEGATIVE'', 0.85))) ''Math''
       ''Review Calculus using Flashcards'' quiet = (Inr ''High'', quiet) \<and>
   prioritize_task (alice (\<lambda>t. Inr (''NEGATIVE'', 0.7))) ''Math''
       ''Review Calculus using Flashcards'' quiet = (Inr ''Medium'', quiet) \<and>
   prioritize_task (alice (\<lambda>t. Inr (''POSITIVE'', 0.99))) ''Math''
       ''Review Essays using Flashcards'' quiet = (Inr ''Low'', quiet)"
  using prioritize_task_rules [of "alice (\<lambda>t. Inr (''NEGATIVE'', 0.85))"
          "''Review Calculus using Flashcards''" "''NEGATIVE''" "0.85" "''Math''" quiet "''Calculus''"]
        prioritize_task_rules [of "alice (\<lambda>t. Inr (''NEGATIVE'', 0.7))"
          "''Review Calculus using Flashcards''" "''NEGATIVE''" "0.7" "''Math''" quiet "''Calculus''"]
        prioritize_task_rules [of "alice (\<lambda>t. Inr (''POSITIVE'', 0.99))"
          "''Review Essays using Flashcards''" "''POSITIVE''" "0.99" "''Math''" quiet "''Calculus''"]
  by (simp add: alice_def sublist_Cons_right prefix_code)

subsection \<open>Time per subject\<close>

text \<open>
  Claim C3. In every daily plan that \<open>generate_daily_plan\<close> builds, each block's time is
  \<open>max 0.5 (study_duration / number of subjects)\<close>, so it is at least half an hour; and
  when the duration divided by the number of subjects is below 0.5, the times of the
  day's blocks add up to more than the declared duration.
\<close>

theorem generate_daily_plan_time:
  assumes "generate_daily_plan self d w = (Inr dp, w')"
  shows "(\<forall>b \<in> set (study_blocks dp).
            time b = max 0.5 (real_of_int (study_duration (study_preferences self)) /
                              real (length (subjects self))) \<and>
            0.5 \<le> time b) \<and>
         (real_of_int (study_duration (study_preferences self)) /
            real (length (subjects self)) < 0.5 \<longrightarrow>
          real_of_int (study_duration (study_preferences self)) <
            sum_list (map time (study_blocks dp)))"
proof -
  let ?dur = "real_of_int (study_duration (study_preferences self))"
  let ?n = "real (length (subjects self))"
  let ?t = "max 0.5 (?dur / ?n)"
  have pos: "0 < ?n"
    using generate_daily_plan_Inr [OF assms] by simp
  have times: "\<forall>b \<in> set (study_blocks dp). time b = ?t"
  proof
    fix b assume "b \<in> set (study_blocks dp)"
    then obtain i where i: "i < length (study_blocks dp)" and b: "b = study_blocks dp ! i"
      by (metis in_set_conv_nth)
    have "length (map subject (study_blocks dp)) = length (subjects self)"
      using generate_daily_plan_subjects [OF assms] by simp
    with i have "i < length (subjects self)" by simp
    from generate_daily_plan_each [OF assms this] b show "time b = ?t" by simp
  qed
  have len: "length (study_blocks dp) = length (subjects self)"
    using generate_daily_plan_subjects [OF assms] by (metis length_map)
  have total: "sum_list (map time (study_blocks dp)) = ?n * ?t"
    using sum_list_same [OF times] len by simp
  have "?dur < ?n * ?t" if low: "?dur / ?n < 0.5"
  proof -
    from low have t: "?t = 0.5" by simp
    from low pos have "?dur < 0.5 * ?n" by (simp add: pos_divide_less_eq)
    then have "?dur < ?n * 0.5" by (simp add: mult.commute)
    then show ?thesis unfolding t .
  qed
  with times total show ?thesis by simp
qed

theorem generate_daily_plan_time_witness:
  "generate_daily_plan (carol (\<lambda>t. Inr (''NEGATIVE'', 0.85))) first_day quiet =
     (Inr (carol_day ''2024-01-01'' ''High''), quiet) \<and>
   time (study_blocks (carol_day ''2024-01-01'' ''High'') ! 0) = 0.5 \<and>
   time (study_blocks (carol_day ''2024-01-01'' ''High'') ! 1) = 0.5 \<and>
   time (study_blocks (carol_day ''2024-01-01'' ''High'') ! 2) = 0.5 \<and>
   real_of_int (study_duration (study_preferences (carol (\<lambda>t. Inr (''NEGATIVE'', 0.85))))) /
     real (length (subjects (carol (\<lambda>t. Inr (''NEGATIVE'', 0.85))))) < 0.5 \<and>
   (1::real) < sum_list (map time (study_blocks (carol_day ''2024-01-01'' ''High'')))"
  using generate_daily_plan_time [OF carol_day_negative] carol_day_negative
  by (simp add: carol_def alice_def carol_day_def block_def)

subsection \<open>The blocks of a day\<close>

text \<open>
  Claim C6. Every daily plan that \<open>generate_daily_plan\<close> builds has exactly one block
  per subject, in the order of \<open>subjects\<close>; the task of the block at position \<open>i\<close> is
  \<open>Review\<close>, the subject's focus area, \<open>using\<close> and the method drawn for it (the
  \<open>i\<close>-th draw of the day, one of the study methods); the plan's environment and
  preferred time are those of the preferences.
\<close>

theorem generate_daily_plan_blocks:
  assumes "generate_daily_plan self d w = (Inr dp, w')"
  shows "map subject (study_blocks dp) = subjects self \<and>
         (\<forall>i < length (subjects self).
            \<exists>focus method.
              areas_to_focus self (subjects self ! i) = Some focus \<and>
              method = study_methods (study_preferences self) !
                         (rand w i mod length (study_methods (study_preferences self))) \<and>
              method \<in> set (study_methods (study_preferences self)) \<and>
              task (study_blocks dp ! i) = ''Review '' @ focus @ '' using '' @ method) \<and>
         environment dp = study_environment (study_preferences self) \<and>
         preferred_time dp = study_time (study_preferences self)"
proof (intro conjI allI impI)
  show "map subject (study_blocks dp) = subjects self"
    by (rule generate_daily_plan_subjects [OF assms])
  show "environment dp = study_environment (study_preferences self)"
    "preferred_time dp = study_time (study_preferences self)"
    using generate_daily_plan_Inr [OF assms] by simp_all
next
  fix i assume i: "i < length (subjects self)"
  let ?ms = "study_methods (study_preferences self)"
  note e = generate_daily_plan_each [OF assms i]
  from e obtain focus where focus: "areas_to_focus self (subjects self ! i) = Some focus"
    by blast
  from e have "?ms \<noteq> []" by blast
  then have "?ms ! (rand w i mod length ?ms) \<in> set ?ms" by simp
  moreover from e focus
  have "task (study_blocks dp ! i) =
          ''Review '' @ focus @ '' using '' @ ?ms ! (rand w i mod length ?ms)"
    by simp
  ultimately show "\<exists>focus method.
              areas_to_focus self (subjects self ! i) = Some focus \<and>
              method = ?ms ! (rand w i mod length ?ms) \<and>
              method \<in> set ?ms \<and>
              task (study_blocks dp ! i) = ''Review '' @ focus @ '' using '' @ method"
    using focus by blast
qed

theorem generate_daily_plan_blocks_witness:
  "generate_daily_plan (alice (\<lambda>t. Inr (''POSITIVE'', 0.9))) first_day quiet =
     (Inr (alice_day ''2024-01-01'' ''Medium''), quiet) \<and>
   map subject (study_blocks (alice_day ''2024-01-01'' ''Medium'')) = [''Math'', ''History''] \<and>
   task (study_blocks (alice_day ''2024-01-01'' ''Medium'') ! 0) =
     ''Review Calculus using Flashcards'' \<and>
   task (study_blocks (alice_day ''2024-01-01'' ''Medium'') ! 1) =
     ''Review Essays using Flashcards'' \<and>
   environment (alice_day ''2024-01-01'' ''Medium'') = ''Library'' \<and>
   preferred_time (alice_day ''2024-01-01'' ''Medium'') = ''Morning''"
  using generate_daily_plan_blocks [OF alice_day_positive] alice_day_positive
  by (simp add: alice_def alice_day_def block_def)

subsection \<open>A failing classifier\<close>

text \<open>
  Claim C4. When the classifier call raises (any \<^verbatim>\<open>Exception\<close>, in the call or in reading
  the label and the score off its result), \<open>prioritize_task\<close> prints the failure and
  returns \<open>Medium\<close>; no error leaves it. The classifier is called only once the time
  per subject has been computed, that is on a profile with subjects whose duration per
  subject is within the doubles. On such a profile with its invariants,
  \<open>generate_daily_plan\<close> completes with one block per subject whatever the classifier
  does, and each block whose classification failed has the priority \<open>Medium\<close>. When the
  classifier fails on every text, the day completes even with no weakness recorded, and
  every block is \<open>Medium\<close>.
\<close>

theorem classifier_failure_contained:
  "(nlp_model self td = Inl e \<longrightarrow>
      prioritize_task self subj td w =
        (Inr ''Medium'',
         print (''Error performing sentiment analysis: '' @ e @
                ''.  Defaulting to medium priority.'') w)) \<and>
   (subjects self \<noteq> [] \<and> time_fits self \<and> well_formed self \<longrightarrow>
      (\<exists>dp w'. generate_daily_plan self d w = (Inr dp, w') \<and>
         map subject (study_blocks dp) = subjects self \<and>
         (\<forall>b \<in> set (study_blocks dp).
            isl (nlp_model self (task b)) \<longrightarrow> priority b = ''Medium''))) \<and>
   (subjects self \<noteq> [] \<and> time_fits self \<and>
    study_methods (study_preferences self) \<noteq> [] \<and>
    (\<forall>s \<in> set (subjects self). areas_to_focus self s \<noteq> None) \<and>
    (\<forall>t. isl (nlp_model self t)) \<longrightarrow>
      (\<exists>dp w'. generate_daily_plan self d w = (Inr dp, w') \<and>
         map subject (study_blocks dp) = subjects self \<and>
         (\<forall>b \<in> set (study_blocks dp). priority b = ''Medium'')))"
proof (intro conjI impI)
  assume "nlp_model self td = Inl e"
  then show "prioritize_task self subj td w =
        (Inr ''Medium'',
         print (''Error performing sentiment analysis: '' @ e @
                ''.  Defaulting to medium priority.'') w)"
    by (rule prioritize_task_failing)
next
  have medium: "priority b = ''Medium''"
    if built: "generate_daily_plan self d w = (Inr dp, w')"
      and b: "b \<in> set (study_blocks dp)" and fails: "isl (nlp_model self (task b))"
    for dp w' b
  proof -
    from generate_daily_plan_priority [OF built b, of w] obtain i where
      p: "fst (prioritize_task self (subjects self ! i) (task b) w) = Inr (priority b)"
      by blast
    from fails obtain e' where "nlp_model self (task b) = Inl e'" by (metis isl_def)
    from prioritize_task_failing [OF this, of "subjects self ! i" w] p
    show ?thesis by simp
  qed
  {
    assume "subjects self \<noteq> [] \<and> time_fits self \<and> well_formed self"
    then obtain dp w' where built: "generate_daily_plan self d w = (Inr dp, w')"
      using generate_daily_plan_returns by blast
    with medium generate_daily_plan_subjects [OF built]
    show "\<exists>dp w'. generate_daily_plan self d w = (Inr dp, w') \<and>
         map subject (study_blocks dp) = subjects self \<and>
         (\<forall>b \<in> set (study_blocks dp).
            isl (nlp_model self (task b)) \<longrightarrow> priority b = ''Medium'')"
      by blast
  }
  {
    assume a: "subjects self \<noteq> [] \<and> time_fits self \<and>
      study_methods (study_preferences self) \<noteq> [] \<and>
      (\<forall>s \<in> set (subjects self). areas_to_focus self s \<noteq> None) \<and>
      (\<forall>t. isl (nlp_model self t))"
    let ?t = "max 0.5 (real_of_int (study_duration (study_preferences self)) /
                       real (length (subjects self)))"
    from a obtain bs w' where
      "study_blocks_loop self ?t (subjects self) w = (Inr bs, w')"
      using study_blocks_loop_returns_failing by blast
    with a true_divide_fits [of self]
    obtain dp where built: "generate_daily_plan self d w = (Inr dp, w')"
      by (simp add: generate_daily_plan_def Let_def)
    with medium a generate_daily_plan_subjects [OF built]
    show "\<exists>dp w'. generate_daily_plan self d w = (Inr dp, w') \<and>
         map subject (study_blocks dp) = subjects self \<and>
         (\<forall>b \<in> set (study_blocks dp). priority b = ''Medium'')"
      by blast
  }
qed

theorem classifier_failure_contained_witness:
  "nlp_model (alice (\<lambda>t. Inl ''model unavailable'')) ''Review Calculus using Flashcards'' =
     Inl ''model unavailable'' \<and>
   prioritize_task (alice (\<lambda>t. Inl ''model unavailable'')) ''Math''
       ''Review Calculus using Flashcards'' quiet =
     (Inr ''Medium'',
      print ''Error performing sentiment analysis: model unavailable.  Defaulting to medium priority.''
        quiet) \<and>
   subjects (alice (\<lambda>t. Inl ''model unavailable'')) \<noteq> [] \<and>
   time_fits (alice (\<lambda>t. Inl ''model unavailable'')) \<and>
   well_formed (alice (\<lambda>t. Inl ''model unavailable'')) \<and>
   fst (generate_daily_plan (alice (\<lambda>t. Inl ''model unavailable'')) first_day quiet) =
     Inr (alice_day ''2024-01-01'' ''Medium'') \<and>
   map subject (study_blocks (alice_day ''2024-01-01'' ''Medium'')) = [''Math'', ''History''] \<and>
   map priority (study_blocks (alice_day ''2024-01-01'' ''Medium'')) = [''Medium'', ''Medium'']"
  using classifier_failure_contained [of "alice (\<lambda>t. Inl ''model unavailable'')"
          "''Review Calculus using Flashcards''" "''model unavailable''" "''Math''" quiet first_day]
        alice_day_failing time_fits_alice [of "\<lambda>t. Inl ''model unavailable''"]
  by (simp add: alice_def well_formed_def alice_day_def block_def)

subsection \<open>The default focus areas\<close>

text \<open>
  Claim C9. With the focus areas that \<open>analyze_student_data\<close> computes (the weakness
  of each subject), \<open>prioritize_task\<close> never answers \<open>Low\<close>: the task description
  \<open>Review weakness using method\<close> contains the weakness, so a successful classification
  gives \<open>High\<close> (label \<open>NEGATIVE\<close>, score above 0.7) or \<open>Medium\<close>, for every
  subject and every method; hence every block of a day generated after the analysis is
  \<open>High\<close> or \<open>Medium\<close>.
\<close>

theorem default_focus_never_low:
  "(weaknesses self subj = Some weakness \<and>
    nlp_model self (''Review '' @ weakness @ '' using '' @ method) = Inr r \<longrightarrow>
      prioritize_task self subj (''Review '' @ weakness @ '' using '' @ method) w =
        (Inr (if fst r = ''NEGATIVE'' \<and> snd r > 0.7 then ''High'' else ''Medium''), w)) \<and>
   (analyze_student_data self w0 = (Inr (), self', w1) \<and>
    generate_daily_plan self' d w = (Inr dp, w') \<longrightarrow>
      (\<forall>b \<in> set (study_blocks dp). priority b = ''High'' \<or> priority b = ''Medium''))"
proof (intro conjI impI ballI)
  assume a: "weaknesses self subj = Some weakness \<and>
    nlp_model self (''Review '' @ weakness @ '' using '' @ method) = Inr r"
  have "sublist weakness (''Review '' @ weakness @ '' using '' @ method)"
    by (rule sublist_appendI)
  with a show "prioritize_task self subj (''Review '' @ weakness @ '' using '' @ method) w =
        (Inr (if fst r = ''NEGATIVE'' \<and> snd r > 0.7 then ''High'' else ''Medium''), w)"
    by (cases r) (simp add: prioritize_task_def del: sublist_appendI)
next
  fix b
  assume a: "analyze_student_data self w0 = (Inr (), self', w1) \<and>
    generate_daily_plan self' d w = (Inr dp, w')"
    and b: "b \<in> set (study_blocks dp)"
  note an = analyze_student_data_Inr [OF a [THEN conjunct1]]
  from generate_daily_plan_priority [OF a [THEN conjunct2] b, of w] obtain i where
    i: "i < length (subjects self')"
    and task: "task b = ''Review '' @ the (areas_to_focus self' (subjects self' ! i)) @
                 '' using '' @ study_methods (study_preferences self') !
                      (rand w i mod length (study_methods (study_preferences self')))"
    and p: "fst (prioritize_task self' (subjects self' ! i) (task b) w) = Inr (priority b)"
    by blast
  let ?s = "subjects self' ! i"
  from i an have mem: "?s \<in> set (subjects self)" by simp
  with an obtain wk where wk: "weaknesses self' ?s = Some wk"
    and focus: "areas_to_focus self' ?s = Some wk" by auto
  have sub: "sublist wk (task b)"
    unfolding task focus option.sel by (rule sublist_appendI)
  show "priority b = ''High'' \<or> priority b = ''Medium''"
  proof (cases "nlp_model self' (task b)")
    case (Inl e)
    from prioritize_task_failing [OF this, of ?s w] p show ?thesis by simp
  next
    case (Inr r)
    with wk sub p show ?thesis
      by (cases r) (auto simp: prioritize_task_def split: if_splits)
  qed
qed

theorem default_focus_never_low_witness:
  "weaknesses (alice (\<lambda>t. Inr (''POSITIVE'', 0.9))) ''Math'' = Some ''Calculus'' \<and>
   nlp_model (alice (\<lambda>t. Inr (''POSITIVE'', 0.9))) (''Review '' @ ''Calculus'' @ '' using '' @ ''Flashcards'') =
     Inr (''POSITIVE'', 0.9) \<and>
   prioritize_task (alice (\<lambda>t. Inr (''POSITIVE'', 0.9))) ''Math''
       (''Review '' @ ''Calculus'' @ '' using '' @ ''Flashcards'') quiet = (Inr ''Medium'', quiet) \<and>
   analyze_student_data (alice (\<lambda>t. Inr (''POSITIVE'', 0.9))) quiet =
     (Inr (), alice (\<lambda>t. Inr (''POSITIVE'', 0.9)),
      print (CHR 0x0A # ''Analyzing your information...'' @ [CHR 0x0A]) quiet) \<and>
   generate_daily_plan (alice (\<lambda>t. Inr (''POSITIVE'', 0.9))) first_day quiet =
     (Inr (alice_day ''2024-01-01'' ''Medium''), quiet) \<and>
   map priority (study_blocks (alice_day ''2024-01-01'' ''Medium'')) = [''Medium'', ''Medium'']"
  using default_focus_never_low [of "alice (\<lambda>t. Inr (''POSITIVE'', 0.9))" "''Math''" "''Calculus''"
          "''Flashcards''" "(''POSITIVE'', 0.9)" quiet quiet "alice (\<lambda>t. Inr (''POSITIVE'', 0.9))"
          "print (CHR 0x0A # ''Analyzing your information...'' @ [CHR 0x0A]) quiet"
          first_day "alice_day ''2024-01-01'' ''Medium''" quiet]
        analyze_alice [of "\<lambda>t. Inr (''POSITIVE'', 0.9)"] alice_day_positive
  by (simp add: alice_def alice_day_def block_def)

subsection \<open>A profile without subjects\<close>

text \<open>
  The claim C5 says that generation on a profile without subjects fails with an error
  that reaches the caller. The guard at the head of \<open>generate_study_plan\<close> prints a
  line and returns instead: on the profile \<open>nobody\<close> the call ends normally.
\<close>

theorem empty_profile_counterexample:
  "generate_study_plan nobody (Some first_day) 7 quiet =
     (Inr (), nobody, print ''No subjects defined. Please gather student info first.'' quiet)"
  by (simp add: generate_study_plan_def nobody_def)

text \<open>
  Claim C5, amended. When \<open>subjects\<close> is empty, \<open>generate_study_plan\<close> raises nothing:
  it prints \<open>No subjects defined. Please gather student info first.\<close> and returns
  normally, whatever the start date and the number of days; no plan is produced, the
  object (and with it the stored study plan) is unchanged.
\<close>

theorem empty_profile_returns:
  assumes "subjects self = []"
  shows "generate_study_plan self start_date num_days w =
           (Inr (), self, print ''No subjects defined. Please gather student info first.'' w)"
  using assms by (simp add: generate_study_plan_def)

theorem empty_profile_returns_witness:
  "subjects nobody = [] \<and>
   generate_study_plan nobody None 7 quiet =
     (Inr (), nobody, print ''No subjects defined. Please gather student info first.'' quiet) \<and>
   study_plan nobody ''2024-01-01'' = None"
  using empty_profile_returns [of nobody None 7 quiet]
  by (simp add: nobody_def alice_def)

subsection \<open>Loading from a missing file\<close>

text \<open>
  Claim C8. When the file does not exist, \<open>load_study_plan\<close> prints
  \<open>File not found\<close> with the file name and returns normally; the object, and so the
  stored study plan, is exactly what it was: nothing is loaded, in part or in whole.
\<close>

theorem load_missing_file:
  assumes "files w filename = None"
  shows "load_study_plan json_load self filename w =
           (Inr (), self, print (''File not found: '' @ filename) w)"
  using assms by (simp add: load_study_plan_def)

theorem load_missing_file_witness:
  "files quiet ''study_plan.json'' = None \<and>
   load_study_plan no_json (alice no_classifier) ''study_plan.json'' quiet =
     (Inr (), alice no_classifier, print ''File not found: study_plan.json'' quiet)"
  using load_missing_file [of quiet "''study_plan.json''" no_json "alice no_classifier"]
  by (simp add: quiet_def)

subsection \<open>What generate_study_plan leaves alone\<close>

text \<open>
  Claim C10. \<open>generate_study_plan\<close> never clears or replaces the stored plan: whatever
  the outcome, every key of the plan before the call is still a key after it, the entries
  under keys that are not the string of one of the dates \<open>start\<close>, \<open>start + 1 day\<close>, ...
  (\<open>num_days\<close> of them) are what they were, and nothing else of the object changes. With
  \<open>num_days \<le> 0\<close> the object is unchanged altogether.
\<close>

theorem generate_study_plan_frame:
  assumes "generate_study_plan self start_date num_days w = (r, self', w')"
  shows "(\<forall>k. k \<notin> strftime ` set (days_from (case start_date of None \<Rightarrow> today w | Some d \<Rightarrow> d)
                                              (nat num_days)) \<longrightarrow>
              study_plan self' k = study_plan self k) \<and>
         dom (study_plan self) \<subseteq> dom (study_plan self') \<and>
         self' = self\<lparr>study_plan := study_plan self'\<rparr> \<and>
         (num_days \<le> 0 \<longrightarrow> self' = self)"
proof (cases "subjects self = []")
  case True
  with assms have "self' = self" by (simp add: generate_study_plan_def)
  then show ?thesis by simp
next
  case False
  let ?start = "case start_date of None \<Rightarrow> today w | Some d \<Rightarrow> d"
  from False assms have run: "plan_days self ?start (nat num_days) w = (r, self', w')"
    by (simp add: generate_study_plan_def Let_def)
  have "self' = self" if "num_days \<le> 0"
    using that run by simp
  with plan_days_frame [OF run] show ?thesis by blast
qed

theorem generate_study_plan_frame_witness:
  "generate_study_plan returning (Some first_day) 2 quiet =
     (Inr (),
      returning\<lparr>study_plan :=
        (study_plan returning)
          (''2024-01-01'' \<mapsto> alice_day ''2024-01-01'' ''Medium'',
           ''2024-01-02'' \<mapsto> alice_day ''2024-01-02'' ''Medium'')\<rparr>,
      quiet) \<and>
   ''2023-12-31'' \<notin> strftime ` set (days_from first_day (nat 2)) \<and>
   ((study_plan returning)
          (''2024-01-01'' \<mapsto> alice_day ''2024-01-01'' ''Medium'',
           ''2024-01-02'' \<mapsto> alice_day ''2024-01-02'' ''Medium'')) ''2023-12-31'' =
     study_plan returning ''2023-12-31'' \<and>
   study_plan returning ''2023-12-31'' = Some (alice_day ''2023-12-31'' ''Low'') \<and>
   generate_study_plan returning (Some first_day) 0 quiet = (Inr (), returning, quiet)"
  using generate_study_plan_frame [OF returning_two_days] returning_two_days
    generate_study_plan_frame [of returning "Some first_day" 0 quiet "Inr ()" returning quiet]
  using days_from_first_day
  by (simp add: strftime_first_day strftime_second_day returning_def generate_study_plan_def
      alice_def)

subsection \<open>One plan per day\<close>

text \<open>
  The claim C2 promises \<open>N\<close> daily plans for every profile with subjects and every
  \<open>N > 0\<close>. The calendar of \<^verbatim>\<open>datetime.date\<close> ends on 9999-12-31: started there with
  \<open>N = 2\<close>, the loop stores the plan of the last day, and stepping to the next date
  raises \<^verbatim>\<open>OverflowError\<close>; one plan is stored, not two.
\<close>

theorem last_day_counterexample:
  "subjects (alice calm_classifier) \<noteq> [] \<and> (0::int) < 2 \<and>
   fst (generate_study_plan (alice calm_classifier) (Some last_day) 2 quiet) =
     Inl OverflowError \<and>
   study_plan (fst (snd (generate_study_plan (alice calm_classifier) (Some last_day) 2 quiet)))
     ''9999-12-31'' = Some (alice_day ''9999-12-31'' ''Medium'') \<and>
   study_plan (fst (snd (generate_study_plan (alice calm_classifier) (Some last_day) 2 quiet)))
     ''2024-01-01'' = None"
  using alice_last_day by simp

text \<open>
  Claim C2, amended. For every profile with at least one subject that satisfies the
  profile invariants and whose duration per subject is within the doubles, every
  \<open>num_days = N > 0\<close> and every start date (given, or today's) from the year 1000 on
  such that the date \<open>N\<close> days later still exists, \<open>generate_study_plan\<close> returns
  normally and stores exactly \<open>N\<close> daily plans: the dates are \<open>start\<close> and then each
  time the next calendar day, \<open>N\<close> of them; their \<open>YYYY-MM-DD\<close> strings are ten
  characters long and pairwise different; the keys of the stored plan are the keys it had
  plus these strings; under the string of each date is a plan that
  \<open>generate_daily_plan\<close> built for that date; the random source has advanced by \<open>N\<close>
  days' worth of draws; and a plan that was empty before has exactly \<open>N\<close> entries
  after. (Below the year 1000 the year printed by \<^verbatim>\<open>%Y\<close> is padded on some platforms and
  not on others; nothing is said about those dates.)
\<close>

theorem generate_study_plan_days:
  assumes subj: "subjects self \<noteq> []" and wf: "well_formed self" and fits: "time_fits self"
    and pos: "0 < num_days"
    and start: "start = (case start_date of None \<Rightarrow> today w | Some d \<Rightarrow> d)"
    and valid: "valid_date start" and modern: "1000 \<le> year start"
    and range: "in_range start (nat num_days)"
  shows "\<exists>self' w'.
           generate_study_plan self start_date num_days w = (Inr (), self', w') \<and>
           length (days_from start (nat num_days)) = nat num_days \<and>
           days_from start (nat num_days) ! 0 = start \<and>
           (\<forall>i. Suc i < nat num_days \<longrightarrow>
                add_one_day (days_from start (nat num_days) ! i) =
                  Inr (days_from start (nat num_days) ! Suc i)) \<and>
           distinct (map strftime (days_from start (nat num_days))) \<and>
           (\<forall>x \<in> set (days_from start (nat num_days)).
              1000 \<le> year x \<and> length (strftime x) = 10) \<and>
           dom (study_plan self') =
             dom (study_plan self) \<union> strftime ` set (days_from start (nat num_days)) \<and>
           (\<forall>x \<in> set (days_from start (nat num_days)).
              \<exists>dp wi wi'. study_plan self' (strftime x) = Some dp \<and>
                           generate_daily_plan self x wi = (Inr dp, wi')) \<and>
           (\<exists>out. w' = w\<lparr>stdout := stdout w @ out,
                           rand := (\<lambda>k. rand w (k + nat num_days * length (subjects self)))\<rparr>) \<and>
           (study_plan self = Map.empty \<longrightarrow> card (dom (study_plan self')) = nat num_days)"
proof -
  let ?n = "nat num_days"
  let ?days = "days_from start ?n"
  from plan_days_ok [OF subj wf fits valid range, of w] obtain self' out where
    run: "plan_days self start ?n w =
            (Inr (), self',
             w\<lparr>stdout := stdout w @ out,
               rand := (\<lambda>k. rand w (k + ?n * length (subjects self)))\<rparr>)"
    and stored: "\<forall>x \<in> set ?days.
              \<exists>dp wi wi'. study_plan self' (strftime x) = Some dp \<and>
                           generate_daily_plan self x wi = (Inr dp, wi')"
    by blast
  let ?w' = "w\<lparr>stdout := stdout w @ out,
               rand := (\<lambda>k. rand w (k + ?n * length (subjects self)))\<rparr>"
  have gen: "generate_study_plan self start_date num_days w = (Inr (), self', ?w')"
    using subj start run by (simp add: generate_study_plan_def Let_def)
  have len: "length ?days = ?n" by (rule days_from_length [OF range])
  from pos obtain m where m: "?n = Suc m" by (cases ?n) auto
  have first: "?days ! 0 = start" unfolding m by simp
  have consecutive: "\<forall>i. Suc i < ?n \<longrightarrow> add_one_day (?days ! i) = Inr (?days ! Suc i)"
    using days_from_consecutive [OF range] by blast
  have dist: "distinct (map strftime ?days)" by (rule days_from_distinct [OF valid])
  have iso: "\<forall>x \<in> set ?days. 1000 \<le> year x \<and> length (strftime x) = 10"
    using days_from_year [OF valid] modern strftime_length by fastforce
  note frame = plan_days_frame [OF run]
  have dom_eq: "dom (study_plan self') = dom (study_plan self) \<union> strftime ` set ?days"
  proof (rule set_eqI)
    fix k
    show "k \<in> dom (study_plan self') \<longleftrightarrow> k \<in> dom (study_plan self) \<union> strftime ` set ?days"
    proof (cases "k \<in> strftime ` set ?days")
      case True
      with stored have "k \<in> dom (study_plan self')" by auto
      with True show ?thesis by simp
    next
      case False
      with frame have "study_plan self' k = study_plan self k" by blast
      with False show ?thesis by (simp add: dom_def)
    qed
  qed
  have card_eq: "card (dom (study_plan self')) = ?n" if "study_plan self = Map.empty"
  proof -
    from that dom_eq have "dom (study_plan self') = set (map strftime ?days)" by simp
    then have "card (dom (study_plan self')) = length (map strftime ?days)"
      using distinct_card [OF dist] by (simp only:)
    with len show ?thesis by simp
  qed
  have world: "\<exists>out. ?w' = w\<lparr>stdout := stdout w @ out,
                           rand := (\<lambda>k. rand w (k + ?n * length (subjects self)))\<rparr>"
    by blast
  from gen len first consecutive dist iso dom_eq stored world card_eq show ?thesis
    by blast
qed

theorem generate_study_plan_days_witness:
  "subjects (alice calm_classifier) \<noteq> [] \<and> well_formed (alice calm_classifier) \<and>
   time_fits (alice calm_classifier) \<and>
   (0::int) < 2 \<and> valid_date first_day \<and> 1000 \<le> year first_day \<and>
   in_range first_day (nat 2) \<and>
   fst (generate_study_plan (alice calm_classifier) (Some first_day) 2 quiet) = Inr () \<and>
   card (dom (study_plan
     (fst (snd (generate_study_plan (alice calm_classifier) (Some first_day) 2 quiet))))) = 2 \<and>
   map strftime (days_from first_day (nat 2)) = [''2024-01-01'', ''2024-01-02'']"
proof -
  have s: "subjects (alice calm_classifier) \<noteq> []" by (simp add: alice_def)
  have e: "study_plan (alice calm_classifier) = Map.empty" by (simp add: alice_def)
  have p: "(0::int) < 2" by simp
  have y: "1000 \<le> year first_day" by (simp add: first_day_def)
  have st: "first_day = (case Some first_day of None \<Rightarrow> today quiet | Some d \<Rightarrow> d)" by simp
  from generate_study_plan_days [OF s well_formed_alice time_fits_alice p st valid_first_day y
      in_range_first_day]
  obtain self' w' where
    run: "generate_study_plan (alice calm_classifier) (Some first_day) 2 quiet = (Inr (), self', w')"
    and card: "study_plan (alice calm_classifier) = Map.empty \<longrightarrow>
                 card (dom (study_plan self')) = nat 2"
    by blast
  from card e have "card (dom (study_plan self')) = 2" by simp
  with run s y well_formed_alice time_fits_alice valid_first_day in_range_first_day
    days_from_first_day
  show ?thesis by (simp add: strftime_first_day strftime_second_day)
qed

subsection \<open>Saving and loading\<close>



end
